theory Spec2Isabelle
  imports Main "HOL-Library.Word"
begin

section \<open>Realtime API example clients: a shallow embedding\<close>

text \<open>
  The repository holds four JavaScript example clients of a realtime WebSocket API:
  \<^item> \<^verbatim>\<open>StepFunRealtimeClient\<close> (src/index.js), a Node script that logs every server event;
  \<^item> \<^verbatim>\<open>InteractiveRealtimeClient\<close> (src/interactive.js, first part), a command line chat;
  \<^item> \<^verbatim>\<open>RealtimeClient\<close> (src/interactive.js, second part), a browser page that
    accumulates text, audio chunks and a transcript;
  \<^item> \<^verbatim>\<open>ToolCallClient\<close> (src/tool-call-example.js), which answers function calls.

  A JavaScript method that mutates \<^verbatim>\<open>this\<close> becomes a function from the object's state to
  the new state; everything it does to the outside (console output, DOM log lines, frames
  handed to the socket, the playback call) is returned as a list of effects, in the order
  the method performs them. An exception that leaves a method is a value of \<open>js_error\<close>.

  A JavaScript string is modelled by the \<open>string\<close> of its UTF-8 bytes. The source compares
  strings for equality and concatenates them; both agree with the same operations on the
  UTF-8 bytes. The Chinese literals that the claims depend on (the weather table) are
  written out byte by byte; the texts of log lines are not modelled as characters: a log
  line is a constructor that names the message and carries its variable parts.
\<close>

subsection \<open>Server events, client events, effects\<close>

text \<open>
  A decoded server event, with the fields the handlers read (\<^verbatim>\<open>event.type\<close>,
  \<^verbatim>\<open>event.delta\<close>, \<^verbatim>\<open>event.text\<close>, \<^verbatim>\<open>event.transcript\<close>, \<^verbatim>\<open>event.name\<close>,
  \<^verbatim>\<open>event.arguments\<close>, \<^verbatim>\<open>event.call_id\<close>, \<^verbatim>\<open>event.error.message\<close>). Every field is a
  string: the wire shapes of the protocol. \<open>text'\<close> is the field \<^verbatim>\<open>text\<close>.
\<close>

record server_event =
  type :: string
  delta :: string
  text' :: string
  transcript :: string
  name :: string
  arguments :: string
  call_id :: string
  error :: string

datatype js_error = SyntaxError | TypeError | RangeError | InvalidCharacterError

text \<open>
  A value that \<^verbatim>\<open>JSON.parse\<close> returns. \<open>JNumber\<close> carries the text that \<^verbatim>\<open>String(n)\<close>
  gives for the number; \<open>JObject\<close> lists the own properties of the object, one entry a key.
\<close>

datatype json =
    JNull
  | JBool bool
  | JNumber string
  | JString string
  | JArray "json list"
  | JObject "(string \<times> json) list"

subsection \<open>src/tool-call-example.js: the results of the tools\<close>

record weather =
  temperature :: int
  condition :: string
  humidity :: int

text \<open>
  The object that \<^verbatim>\<open>generateHoroscope\<close> builds. \<open>None\<close> is JavaScript's \<^verbatim>\<open>undefined\<close>
  (an absent argument, an array read out of range).
\<close>

record horoscope =
  sign :: "json option"
  date :: string
  fortune :: "string option"
  lucky_number :: nat
  lucky_color :: "string option"

text \<open>
  What \<^verbatim>\<open>handleFunctionCall\<close> can hold in \<^verbatim>\<open>result\<close>: a weather object, a horoscope, the
  object \<^verbatim>\<open>{ error: ... }\<close>, or a member that the table \<^verbatim>\<open>weatherData\<close> inherits from
  \<^verbatim>\<open>Object.prototype\<close> (named by its key).
\<close>

datatype tool_result =
    WeatherObject weather
  | HoroscopeObject horoscope
  | ErrorObject string
  | ObjectPrototypeMember string

datatype content_part = InputText string

datatype conversation_item =
    Message string "content_part list"
  | FunctionCallOutput string "string option"

text \<open>
  The objects the clients pass to \<^verbatim>\<open>send\<close>. \<open>Message role content\<close> is
  \<^verbatim>\<open>{type: 'message', role, content}\<close>; \<open>FunctionCallOutput call_id output\<close> is
  \<^verbatim>\<open>{type: 'function_call_output', call_id, output}\<close>, where an \<^verbatim>\<open>undefined\<close> output is
  \<open>None\<close>; \<open>ResponseCreate (Some ms)\<close> is \<^verbatim>\<open>{type: 'response.create', response: {modalities: ms}}\<close>
  and \<open>ResponseCreate None\<close> has no \<^verbatim>\<open>response\<close> field.
\<close>

datatype client_event =
    SessionUpdate json
  | ConversationItemCreate conversation_item
  | ResponseCreate "string list option"
  | InputAudioBufferAppend string
  | InputAudioBufferCommit
  | InputAudioBufferClear

text \<open>The lines the scripts print on the console, named by what they say.\<close>

datatype console_line =
    EventTag string
  | SessionReady
  | FunctionArguments string
  | FunctionCallName string
  | FunctionCallArguments string
  | NewLine
  | Separator
  | ServerError string
  | Executing string json
  | ReturnedResult tool_result
  | ServerEventTag string
  | SessionCreated
  | SessionUpdated
  | ItemCreated
  | ResponseStarted
  | TextDone string
  | AudioChunkReceived
  | AudioDone
  | ResponseDone
  | SpeechStarted
  | SpeechStopped
  | OtherEvent server_event
  | NotConnected
  | MessageSent string
  | AssistantLabel
  | Goodbye
  | ResponseTrace server_event
  | RateLimits

text \<open>
  The second argument of \<^verbatim>\<open>RealtimeClient.log(message, type)\<close>: \<^verbatim>\<open>'system'\<close>,
  \<^verbatim>\<open>'error'\<close>, \<^verbatim>\<open>'text'\<close>, \<^verbatim>\<open>'transcript'\<close>, \<^verbatim>\<open>'response'\<close>.
\<close>

datatype log_type = LogSystem | LogError | LogText | LogTranscript | LogResponse

text \<open>The messages \<^verbatim>\<open>RealtimeClient.handleResponse\<close> writes to the page.\<close>

datatype page_line =
    ErrorLine string
  | StepFunSessionCreated
  | SessionConfigUpdated
  | ConversationItemCreated
  | ResponseBegins
  | OutputItemAdded
  | ContentPartAdded
  | TextGenerationDone
  | FullText string
  | AudioChunkNumber nat
  | AudioGenerationDone nat
  | TranscriptSoFar string
  | TranscriptDone string
  | ContentPartDone
  | OutputItemDone
  | ResponseComplete
  | Rule
  | SpeechBegins
  | SpeechEnds
  | BufferCommitted
  | Unhandled server_event

text \<open>
  \<open>WsSend e\<close> is \<^verbatim>\<open>this.ws.send(JSON.stringify(e))\<close>: the only way a message reaches the
  transport. \<open>Log m t\<close> is \<^verbatim>\<open>this.log(m, t)\<close>, \<open>UpdateTextDisplay s\<close> is
  \<^verbatim>\<open>this.updateTextDisplay(s)\<close>, \<open>PlayAudio chunks\<close> is \<^verbatim>\<open>this.playAudio(chunks)\<close>,
  \<open>ClearTimeout t\<close> is \<^verbatim>\<open>clearTimeout(t)\<close>; \<open>WsClose\<close>, \<open>RlClose\<close> and \<open>RlPrompt\<close> are
  \<^verbatim>\<open>client.close()\<close>, \<^verbatim>\<open>rl.close()\<close> and \<^verbatim>\<open>rl.prompt()\<close> of the command line loop.
\<close>

datatype effect =
    ConsoleLog console_line
  | ConsoleError console_line
  | StdoutWrite string
  | WsSend client_event
  | Log page_line log_type
  | UpdateTextDisplay string
  | PlayAudio "string list"
  | ClearTimeout nat
  | WsClose
  | RlClose
  | RlPrompt

text \<open>The fields shared by the three Node clients.\<close>

record client =
  isConnected :: bool

text \<open>
  The built-ins \<^verbatim>\<open>JSON.parse\<close> and \<^verbatim>\<open>JSON.stringify\<close> are parameters of the model.
  \<open>JSON_parse p s = None\<close> when \<^verbatim>\<open>JSON.parse(s)\<close> throws a \<^verbatim>\<open>SyntaxError\<close>;
  \<open>JSON_stringify p r = None\<close> when \<^verbatim>\<open>JSON.stringify(r)\<close> is \<^verbatim>\<open>undefined\<close>.
\<close>

record platform =
  JSON_parse :: "string \<Rightarrow> json option"
  JSON_stringify :: "tool_result \<Rightarrow> string option"

text \<open>
  The values of the three \<^verbatim>\<open>Math.floor(Math.random() * n)\<close> of one call of
  \<^verbatim>\<open>generateHoroscope\<close>, in the order they are drawn, and the text of
  \<^verbatim>\<open>new Date().toLocaleDateString('zh-CN')\<close>.
\<close>

record draws =
  fortune_draw :: nat
  number_draw :: nat
  color_draw :: nat
  today :: string

subsection \<open>src/tool-call-example.js: \<^verbatim>\<open>getWeather\<close>\<close>

definition beijing :: string where
  "beijing = [CHR 0xE5, CHR 0x8C, CHR 0x97, CHR 0xE4, CHR 0xBA, CHR 0xAC]"

definition shanghai :: string where
  "shanghai = [CHR 0xE4, CHR 0xB8, CHR 0x8A, CHR 0xE6, CHR 0xB5, CHR 0xB7]"

definition shenzhen :: string where
  "shenzhen = [CHR 0xE6, CHR 0xB7, CHR 0xB1, CHR 0xE5, CHR 0x9C, CHR 0xB3]"

definition sunny :: string where
  "sunny = [CHR 0xE6, CHR 0x99, CHR 0xB4, CHR 0xE6, CHR 0x9C, CHR 0x97]"

definition cloudy :: string where
  "cloudy = [CHR 0xE5, CHR 0xA4, CHR 0x9A, CHR 0xE4, CHR 0xBA, CHR 0x91]"

definition light_rain :: string where
  "light_rain = [CHR 0xE5, CHR 0xB0, CHR 0x8F, CHR 0xE9, CHR 0x9B, CHR 0xA8]"

definition unknown_condition :: string where
  "unknown_condition = [CHR 0xE6, CHR 0x9C, CHR 0xAA, CHR 0xE7, CHR 0x9F, CHR 0xA5]"

definition unknown_function :: string where
  "unknown_function = [CHR 0xE6, CHR 0x9C, CHR 0xAA, CHR 0xE7, CHR 0x9F, CHR 0xA5,
                       CHR 0xE5, CHR 0x87, CHR 0xBD, CHR 0xE6, CHR 0x95, CHR 0xB0]"

text \<open>The own properties of the object literal \<^verbatim>\<open>weatherData\<close>.\<close>

definition weatherData :: "(string \<times> weather) list" where
  "weatherData =
     [(beijing, \<lparr>temperature = 15, condition = sunny, humidity = 45\<rparr>),
      (shanghai, \<lparr>temperature = 20, condition = cloudy, humidity = 60\<rparr>),
      (shenzhen, \<lparr>temperature = 25, condition = light_rain, humidity = 75\<rparr>)]"

text \<open>
  \<^verbatim>\<open>weatherData\<close> is an object literal, so its prototype is \<^verbatim>\<open>Object.prototype\<close>, and
  \<^verbatim>\<open>weatherData[location]\<close> reads a key that is not an own property from there. These are
  the property names of \<^verbatim>\<open>Object.prototype\<close> (ECMAScript, sections 20.1.3 and B.2.2); each
  holds a function, and \<^verbatim>\<open>__proto__\<close> reads as \<^verbatim>\<open>Object.prototype\<close> itself: all are truthy.
\<close>

definition object_prototype_keys :: "string list" where
  "object_prototype_keys =
     [''constructor'', ''hasOwnProperty'', ''isPrototypeOf'', ''propertyIsEnumerable'',
      ''toLocaleString'', ''toString'', ''valueOf'', ''__proto__'',
      ''__defineGetter__'', ''__defineSetter__'', ''__lookupGetter__'', ''__lookupSetter__'']"

definition default_weather :: weather where
  "default_weather = \<lparr>temperature = 18, condition = unknown_condition, humidity = 50\<rparr>"

text \<open>
  \<^verbatim>\<open>return weatherData[location] || { temperature: 18, condition: ..., humidity: 50 }\<close>:
  the own property, else the inherited one, else (the read is \<^verbatim>\<open>undefined\<close>) the default.
\<close>

definition getWeather :: "string \<Rightarrow> tool_result" where
  "getWeather location =
     (case map_of weatherData location of
        Some w \<Rightarrow> WeatherObject w
      | None \<Rightarrow>
          if location \<in> set object_prototype_keys then ObjectPrototypeMember location
          else WeatherObject default_weather)"

subsection \<open>src/tool-call-example.js: \<^verbatim>\<open>generateHoroscope\<close>\<close>

definition fortunes :: "string list" where
  "fortunes =
     [[CHR 0xE4, CHR 0xBB, CHR 0x8A, CHR 0xE5, CHR 0xA4, CHR 0xA9, CHR 0xE6, CHR 0x98, CHR 0xAF,
       CHR 0xE5, CHR 0x85, CHR 0x85, CHR 0xE6, CHR 0xBB, CHR 0xA1, CHR 0xE6, CHR 0x9C, CHR 0xBA,
       CHR 0xE9, CHR 0x81, CHR 0x87, CHR 0xE7, CHR 0x9A, CHR 0x84, CHR 0xE4, CHR 0xB8, CHR 0x80,
       CHR 0xE5, CHR 0xA4, CHR 0xA9, CHR 0xEF, CHR 0xBC, CHR 0x8C, CHR 0xE4, CHR 0xBF, CHR 0x9D,
       CHR 0xE6, CHR 0x8C, CHR 0x81, CHR 0xE7, CHR 0xA7, CHR 0xAF, CHR 0xE6, CHR 0x9E, CHR 0x81,
       CHR 0xE5, CHR 0xBF, CHR 0x83, CHR 0xE6, CHR 0x80, CHR 0x81, CHR 0xE3, CHR 0x80, CHR 0x82],
      [CHR 0xE8, CHR 0xB4, CHR 0xA2, CHR 0xE8, CHR 0xBF, CHR 0x90, CHR 0xE4, CHR 0xB8, CHR 0x8D,
       CHR 0xE9, CHR 0x94, CHR 0x99, CHR 0xEF, CHR 0xBC, CHR 0x8C, CHR 0xE4, CHR 0xBD, CHR 0x86,
       CHR 0xE8, CHR 0xA6, CHR 0x81, CHR 0xE6, CHR 0xB3, CHR 0xA8, CHR 0xE6, CHR 0x84, CHR 0x8F,
       CHR 0xE7, CHR 0x90, CHR 0x86, CHR 0xE6, CHR 0x80, CHR 0xA7, CHR 0xE6, CHR 0xB6, CHR 0x88,
       CHR 0xE8, CHR 0xB4, CHR 0xB9, CHR 0xE3, CHR 0x80, CHR 0x82],
      [CHR 0xE6, CHR 0x84, CHR 0x9F, CHR 0xE6, CHR 0x83, CHR 0x85, CHR 0xE8, CHR 0xBF, CHR 0x90,
       CHR 0xE5, CHR 0x8A, CHR 0xBF, CHR 0xE4, CHR 0xB8, CHR 0x8A, CHR 0xE5, CHR 0x8D, CHR 0x87,
       CHR 0xEF, CHR 0xBC, CHR 0x8C, CHR 0xE9, CHR 0x80, CHR 0x82, CHR 0xE5, CHR 0x90, CHR 0x88,
       CHR 0xE8, CHR 0xA1, CHR 0xA8, CHR 0xE8, CHR 0xBE, CHR 0xBE, CHR 0xE5, CHR 0xBF, CHR 0x83,
       CHR 0xE6, CHR 0x84, CHR 0x8F, CHR 0xE3, CHR 0x80, CHR 0x82],
      [CHR 0xE5, CHR 0xB7, CHR 0xA5, CHR 0xE4, CHR 0xBD, CHR 0x9C, CHR 0xE4, CHR 0xB8, CHR 0xAD,
       CHR 0xE5, CHR 0x8F, CHR 0xAF, CHR 0xE8, CHR 0x83, CHR 0xBD, CHR 0xE9, CHR 0x81, CHR 0x87,
       CHR 0xE5, CHR 0x88, CHR 0xB0, CHR 0xE6, CHR 0x8C, CHR 0x91, CHR 0xE6, CHR 0x88, CHR 0x98,
       CHR 0xEF, CHR 0xBC, CHR 0x8C, CHR 0xE4, CHR 0xBF, CHR 0x9D, CHR 0xE6, CHR 0x8C, CHR 0x81,
       CHR 0xE5, CHR 0x86, CHR 0xB7, CHR 0xE9, CHR 0x9D, CHR 0x99, CHR 0xE5, CHR 0xBA, CHR 0x94,
       CHR 0xE5, CHR 0xAF, CHR 0xB9, CHR 0xE3, CHR 0x80, CHR 0x82],
      [CHR 0xE5, CHR 0x81, CHR 0xA5, CHR 0xE5, CHR 0xBA, CHR 0xB7, CHR 0xE7, CHR 0x8A, CHR 0xB6,
       CHR 0xE5, CHR 0x86, CHR 0xB5, CHR 0xE8, CHR 0x89, CHR 0xAF, CHR 0xE5, CHR 0xA5, CHR 0xBD,
       CHR 0xEF, CHR 0xBC, CHR 0x8C, CHR 0xE9, CHR 0x80, CHR 0x82, CHR 0xE5, CHR 0x90, CHR 0x88,
       CHR 0xE6, CHR 0x88, CHR 0xB7, CHR 0xE5, CHR 0xA4, CHR 0x96, CHR 0xE6, CHR 0xB4, CHR 0xBB,
       CHR 0xE5, CHR 0x8A, CHR 0xA8, CHR 0xE3, CHR 0x80, CHR 0x82]]"

definition lucky_colors :: "string list" where
  "lucky_colors =
     [[CHR 0xE7, CHR 0xBA, CHR 0xA2, CHR 0xE8, CHR 0x89, CHR 0xB2],
      [CHR 0xE8, CHR 0x93, CHR 0x9D, CHR 0xE8, CHR 0x89, CHR 0xB2],
      [CHR 0xE7, CHR 0xBB, CHR 0xBF, CHR 0xE8, CHR 0x89, CHR 0xB2],
      [CHR 0xE7, CHR 0xB4, CHR 0xAB, CHR 0xE8, CHR 0x89, CHR 0xB2]]"

text \<open>\<^verbatim>\<open>xs[i]\<close> on a JavaScript array: \<^verbatim>\<open>undefined\<close> out of range.\<close>

definition array_get :: "'a list \<Rightarrow> nat \<Rightarrow> 'a option" where
  "array_get xs i = (if i < length xs then Some (xs ! i) else None)"

definition generateHoroscope :: "draws \<Rightarrow> json option \<Rightarrow> tool_result" where
  "generateHoroscope d sign_value =
     (let randomFortune = array_get fortunes (fortune_draw d)
      in HoroscopeObject
           \<lparr>sign = sign_value,
            date = today d,
            fortune = randomFortune,
            lucky_number = number_draw d,
            lucky_color = array_get lucky_colors (color_draw d)\<rparr>)"

subsection \<open>src/tool-call-example.js: \<^verbatim>\<open>send\<close>, \<^verbatim>\<open>returnFunctionResult\<close>, \<^verbatim>\<open>handleFunctionCall\<close>\<close>

text \<open>\<^verbatim>\<open>if (this.isConnected) { this.ws.send(JSON.stringify(event)); }\<close>\<close>

definition ToolCall_send :: "'a client_scheme \<Rightarrow> client_event \<Rightarrow> effect list" where
  "ToolCall_send c e = (if isConnected c then [WsSend e] else [])"

definition returnFunctionResult ::
  "platform \<Rightarrow> 'a client_scheme \<Rightarrow> string \<Rightarrow> tool_result \<Rightarrow> effect list" where
  "returnFunctionResult p c callId result =
     ConsoleLog (ReturnedResult result)
     # ToolCall_send c
         (ConversationItemCreate (FunctionCallOutput callId (JSON_stringify p result)))
     @ ToolCall_send c (ResponseCreate None)"

text \<open>
  \<^verbatim>\<open>args.location\<close> and \<^verbatim>\<open>args.sign\<close>: a \<^verbatim>\<open>TypeError\<close> when \<^verbatim>\<open>args\<close> is \<^verbatim>\<open>null\<close>, the own
  property of an object, and \<^verbatim>\<open>undefined\<close> otherwise (no built-in prototype has a property
  of either name).
\<close>

definition get_property :: "json \<Rightarrow> string \<Rightarrow> js_error + json option" where
  "get_property args key =
     (case args of
        JNull \<Rightarrow> Inl TypeError
      | JObject kvs \<Rightarrow> Inr (map_of kvs key)
      | _ \<Rightarrow> Inr None)"

text \<open>Joining strings with a separator, as \<^verbatim>\<open>Array.prototype.join\<close> does.\<close>

fun join :: "string \<Rightarrow> string list \<Rightarrow> string" where
  "join sep [] = []"
| "join sep [x] = x"
| "join sep (x # y # ys) = x @ sep @ join sep (y # ys)"

text \<open>
  The property key that a value turns into (\<^verbatim>\<open>ToPropertyKey\<close>) when it indexes
  \<^verbatim>\<open>weatherData\<close>: the string itself, and the \<^verbatim>\<open>String(v)\<close> of anything else; an array joins
  its elements with commas, with \<^verbatim>\<open>null\<close> elements empty.
\<close>

fun to_string :: "json \<Rightarrow> string" where
  "to_string JNull = ''null''"
| "to_string (JBool b) = (if b then ''true'' else ''false'')"
| "to_string (JNumber t) = t"
| "to_string (JString s) = s"
| "to_string (JArray xs) =
     join '','' (map (\<lambda>x. if x = JNull then [] else to_string x) xs)"
| "to_string (JObject kvs) = ''[object Object]''"

definition property_key :: "json option \<Rightarrow> string" where
  "property_key v = (case v of None \<Rightarrow> ''undefined'' | Some j \<Rightarrow> to_string j)"

text \<open>
  \<^verbatim>\<open>handleFunctionCall(event)\<close>. The result is the effects performed, and the exception
  that ended the call, if one did. \<^verbatim>\<open>JSON.parse(argsStr)\<close> stands outside any
  \<^verbatim>\<open>try\<close>: its \<^verbatim>\<open>SyntaxError\<close> leaves the method before anything is printed or sent.
\<close>

definition handleFunctionCall ::
  "platform \<Rightarrow> draws \<Rightarrow> 'a client_scheme \<Rightarrow> server_event \<Rightarrow> effect list \<times> js_error option" where
  "handleFunctionCall p d c event =
     (case JSON_parse p (arguments event) of
        None \<Rightarrow> ([], Some SyntaxError)
      | Some args \<Rightarrow>
          let executing = ConsoleLog (Executing (name event) args) in
          if name event = ''get_weather'' then
            (case get_property args ''location'' of
               Inl e \<Rightarrow> ([executing], Some e)
             | Inr location \<Rightarrow>
                 (executing # returnFunctionResult p c (call_id event)
                    (getWeather (property_key location)), None))
          else if name event = ''generate_horoscope'' then
            (case get_property args ''sign'' of
               Inl e \<Rightarrow> ([executing], Some e)
             | Inr sign_value \<Rightarrow>
                 (executing # returnFunctionResult p c (call_id event)
                    (generateHoroscope d sign_value), None))
          else
            (executing # returnFunctionResult p c (call_id event)
               (ErrorObject unknown_function), None))"

text \<open>\<^verbatim>\<open>ToolCallClient.handleServerEvent\<close>: a \<^verbatim>\<open>switch\<close> with no \<^verbatim>\<open>default\<close>.\<close>

definition ToolCall_handleServerEvent ::
  "platform \<Rightarrow> draws \<Rightarrow> 'a client_scheme \<Rightarrow> server_event \<Rightarrow> effect list \<times> js_error option" where
  "ToolCall_handleServerEvent p d c event =
     (let tag = ConsoleLog (EventTag (type event)) in
      if type event = ''session.created'' \<or> type event = ''session.updated'' then
        ([tag, ConsoleLog SessionReady], None)
      else if type event = ''response.function_call_arguments.delta'' then
        ([tag, ConsoleLog (FunctionArguments (delta event))], None)
      else if type event = ''response.function_call_arguments.done'' then
        (case handleFunctionCall p d c event of
           (effects, thrown) \<Rightarrow>
             (tag # ConsoleLog (FunctionCallName (name event))
                  # ConsoleLog (FunctionCallArguments (arguments event))
                  # effects, thrown))
      else if type event = ''response.text.delta'' then
        ([tag, StdoutWrite (delta event)], None)
      else if type event = ''response.text.done'' then
        ([tag, ConsoleLog NewLine], None)
      else if type event = ''response.done'' then
        ([tag, ConsoleLog Separator], None)
      else if type event = ''error'' then
        ([tag, ConsoleError (ServerError (error event))], None)
      else ([tag], None))"

text \<open>The frames a list of effects hands to the socket, in order.\<close>

fun sent :: "effect list \<Rightarrow> client_event list" where
  "sent [] = []"
| "sent (WsSend e # fx) = e # sent fx"
| "sent (_ # fx) = sent fx"

text \<open>
  The transport delivers the decoded events to a handler one at a time, in arrival order
  (\<^verbatim>\<open>ws.on('message', ...)\<close>, \<^verbatim>\<open>ws.onmessage\<close>): the state is threaded through, the
  effects are collected in order.
\<close>

fun deliver :: "('s \<Rightarrow> server_event \<Rightarrow> 's \<times> effect list) \<Rightarrow> 's \<Rightarrow> server_event list \<Rightarrow> 's \<times> effect list" where
  "deliver handler c [] = (c, [])"
| "deliver handler c (event # events) =
     (case handler c event of
        (c1, effects1) \<Rightarrow>
          (case deliver handler c1 events of
             (c2, effects2) \<Rightarrow> (c2, effects1 @ effects2)))"

subsection \<open>src/index.js: \<^verbatim>\<open>StepFunRealtimeClient\<close>\<close>

text \<open>The \<^verbatim>\<open>case\<close> labels of \<^verbatim>\<open>StepFunRealtimeClient.handleServerEvent\<close>.\<close>

definition StepFun_tags :: "string list" where
  "StepFun_tags =
     [''session.created'', ''session.updated'', ''conversation.item.created'',
      ''response.created'', ''response.text.delta'', ''response.text.done'',
      ''response.audio.delta'', ''response.audio.done'', ''response.done'',
      ''input_audio_buffer.speech_started'', ''input_audio_buffer.speech_stopped'',
      ''error'']"

text \<open>
  \<^verbatim>\<open>handleServerEvent(event)\<close> of src/index.js prints and assigns no field; the state is
  returned as it came.
\<close>

definition StepFun_handleServerEvent ::
  "'a client_scheme \<Rightarrow> server_event \<Rightarrow> 'a client_scheme \<times> effect list" where
  "StepFun_handleServerEvent c event =
     (c, ConsoleLog (ServerEventTag (type event)) #
       (if type event = ''session.created'' then [ConsoleLog SessionCreated]
        else if type event = ''session.updated'' then [ConsoleLog SessionUpdated]
        else if type event = ''conversation.item.created'' then [ConsoleLog ItemCreated]
        else if type event = ''response.created'' then [ConsoleLog ResponseStarted]
        else if type event = ''response.text.delta'' then [StdoutWrite (delta event)]
        else if type event = ''response.text.done'' then [ConsoleLog (TextDone (text' event))]
        else if type event = ''response.audio.delta'' then [ConsoleLog AudioChunkReceived]
        else if type event = ''response.audio.done'' then [ConsoleLog AudioDone]
        else if type event = ''response.done'' then [ConsoleLog ResponseDone, ConsoleLog Separator]
        else if type event = ''input_audio_buffer.speech_started'' then [ConsoleLog SpeechStarted]
        else if type event = ''input_audio_buffer.speech_stopped'' then [ConsoleLog SpeechStopped]
        else if type event = ''error'' then [ConsoleError (ServerError (error event))]
        else [ConsoleLog (OtherEvent event)]))"

text \<open>
  \<^verbatim>\<open>if (!this.isConnected) { console.error(...); return; } this.ws.send(JSON.stringify(event));\<close>
\<close>

definition StepFun_send :: "'a client_scheme \<Rightarrow> client_event \<Rightarrow> effect list" where
  "StepFun_send c e = (if \<not> isConnected c then [ConsoleError NotConnected] else [WsSend e])"

definition sendTextMessage :: "'a client_scheme \<Rightarrow> string \<Rightarrow> effect list" where
  "sendTextMessage c txt =
     StepFun_send c (ConversationItemCreate (Message ''user'' [InputText txt]))
     @ StepFun_send c (ResponseCreate (Some [''text'']))
     @ [ConsoleLog (MessageSent txt)]"

subsection \<open>src/interactive.js: \<^verbatim>\<open>InteractiveRealtimeClient\<close>\<close>

record InteractiveRealtimeClient = client +
  currentResponse :: string

text \<open>The text \<^verbatim>\<open>showPrompt\<close> writes: a line feed, U+4F60, a colon, a space.\<close>

definition prompt_text :: string where
  "prompt_text = [CHR 0x0A, CHR 0xE4, CHR 0xBD, CHR 0xA0, CHR '':'', CHR '' '']"

definition showPrompt :: "effect list" where
  "showPrompt = [StdoutWrite prompt_text]"

text \<open>\<^verbatim>\<open>InteractiveRealtimeClient.handleServerEvent\<close>: a \<^verbatim>\<open>switch\<close> with no \<^verbatim>\<open>default\<close>.\<close>

definition Interactive_handleServerEvent ::
  "'a InteractiveRealtimeClient_scheme \<Rightarrow> server_event
   \<Rightarrow> 'a InteractiveRealtimeClient_scheme \<times> effect list" where
  "Interactive_handleServerEvent c event =
     (if type event = ''session.created'' then (c, [ConsoleLog SessionCreated])
      else if type event = ''session.updated'' then (c, [ConsoleLog SessionUpdated])
      else if type event = ''response.text.delta'' then
        (c\<lparr>currentResponse := currentResponse c @ delta event\<rparr>, [StdoutWrite (delta event)])
      else if type event = ''response.text.done'' then
        (c\<lparr>currentResponse := []\<rparr>, [ConsoleLog NewLine])
      else if type event = ''response.done'' then (c, showPrompt)
      else if type event = ''error'' then
        (c, ConsoleError (ServerError (error event)) # showPrompt)
      else (c, []))"

text \<open>\<^verbatim>\<open>if (this.isConnected) { this.ws.send(JSON.stringify(event)); }\<close>\<close>

definition Interactive_send :: "'a client_scheme \<Rightarrow> client_event \<Rightarrow> effect list" where
  "Interactive_send c e = (if isConnected c then [WsSend e] else [])"

definition sendMessage :: "'a client_scheme \<Rightarrow> string \<Rightarrow> effect list" where
  "sendMessage c txt =
     Interactive_send c (ConversationItemCreate (Message ''user'' [InputText txt]))
     @ Interactive_send c (ResponseCreate (Some [''text'']))"

text \<open>
  The listener \<^verbatim>\<open>rl.on('line', ...)\<close> of \<^verbatim>\<open>main\<close> in src/interactive.js, the one caller of
  \<^verbatim>\<open>sendMessage\<close>. \<^verbatim>\<open>String.prototype.trim\<close> is a parameter; \<^verbatim>\<open>if (input)\<close> is true of
  every string but the empty one.
\<close>

definition on_line :: "(string \<Rightarrow> string) \<Rightarrow> 'a client_scheme \<Rightarrow> string \<Rightarrow> effect list" where
  "on_line trim c line =
     (let input = trim line in
      if input = ''/quit'' \<or> input = ''/exit'' then [ConsoleLog Goodbye, WsClose, RlClose]
      else if input \<noteq> [] then ConsoleLog AssistantLabel # sendMessage c input
      else [RlPrompt])"

subsection \<open>src/interactive.js: \<^verbatim>\<open>RealtimeClient\<close>\<close>

text \<open>
  The fields of \<^verbatim>\<open>RealtimeClient\<close> that \<^verbatim>\<open>handleResponse\<close> reads or assigns, and the
  session fields \<^verbatim>\<open>isConnected\<close> and \<^verbatim>\<open>sessId\<close>. \<^verbatim>\<open>currentAudioChunks\<close> holds the base64
  texts in the order they were pushed. \<open>responseTimeout = Some t\<close> is a pending timer (the
  handle that \<^verbatim>\<open>setTimeout\<close> returned, a positive number, so truthy), \<open>None\<close> is
  \<^verbatim>\<open>null\<close> or \<^verbatim>\<open>undefined\<close>; the recorder fields and the DOM elements are left out.
\<close>

record RealtimeClient = client +
  sessId :: "string option"
  currentTextResponse :: string
  currentAudioChunks :: "string list"
  currentTranscript :: string
  responseTimeout :: "nat option"

text \<open>The \<^verbatim>\<open>case\<close> labels of \<^verbatim>\<open>RealtimeClient.handleResponse\<close>, and \<^verbatim>\<open>'error'\<close>.\<close>

definition RealtimeClient_tags :: "string list" where
  "RealtimeClient_tags =
     [''error'', ''session.created'', ''session.updated'', ''conversation.item.created'',
      ''response.created'', ''response.output_item.added'', ''response.content_part.added'',
      ''response.text.delta'', ''response.text.done'',
      ''response.audio.delta'', ''response.audio.done'',
      ''response.audio_transcript.delta'', ''response.audio_transcript.done'',
      ''response.content_part.done'', ''response.output_item.done'', ''response.done'',
      ''input_audio_buffer.speech_started'', ''input_audio_buffer.speech_stopped'',
      ''input_audio_buffer.committed'', ''rate_limits.updated'']"

text \<open>
  \<^verbatim>\<open>if (this.responseTimeout) { clearTimeout(this.responseTimeout); this.responseTimeout = null; }\<close>
\<close>

definition clearResponseTimeout ::
  "'a RealtimeClient_scheme \<Rightarrow> 'a RealtimeClient_scheme \<times> effect list" where
  "clearResponseTimeout c =
     (case responseTimeout c of
        None \<Rightarrow> (c, [])
      | Some t \<Rightarrow> (c\<lparr>responseTimeout := None\<rparr>, [ClearTimeout t]))"

text \<open>
  The \<^verbatim>\<open>switch\<close> of \<^verbatim>\<open>handleResponse\<close>, entered when the type is not \<^verbatim>\<open>'error'\<close>.
  \<^verbatim>\<open>errorMsg\<close> is \<^verbatim>\<open>data.error?.message || data.error || JSON.stringify(data)\<close>: the
  message, or, when the message is the empty string, the text of the error object.
\<close>

definition dispatch ::
  "'a RealtimeClient_scheme \<Rightarrow> server_event \<Rightarrow> 'a RealtimeClient_scheme \<times> effect list" where
  "dispatch c data =
     (if type data = ''session.created'' then (c, [Log StepFunSessionCreated LogSystem])
      else if type data = ''session.updated'' then (c, [Log SessionConfigUpdated LogSystem])
      else if type data = ''conversation.item.created'' then
        (c, [Log ConversationItemCreated LogSystem])
      else if type data = ''response.created'' then
        (c\<lparr>currentTextResponse := [], currentAudioChunks := [], currentTranscript := []\<rparr>,
         [Log ResponseBegins LogSystem])
      else if type data = ''response.output_item.added'' then (c, [Log OutputItemAdded LogSystem])
      else if type data = ''response.content_part.added'' then
        (c, [Log ContentPartAdded LogSystem])
      else if type data = ''response.text.delta'' then
        (c\<lparr>currentTextResponse := currentTextResponse c @ delta data\<rparr>,
         [UpdateTextDisplay (currentTextResponse c @ delta data)])
      else if type data = ''response.text.done'' then
        (c, [Log TextGenerationDone LogSystem, Log (FullText (text' data)) LogText])
      else if type data = ''response.audio.delta'' then
        (c\<lparr>currentAudioChunks := currentAudioChunks c @ [delta data]\<rparr>,
         [Log (AudioChunkNumber (length (currentAudioChunks c) + 1)) LogSystem])
      else if type data = ''response.audio.done'' then
        (c, Log (AudioGenerationDone (length (currentAudioChunks c))) LogSystem #
            (if length (currentAudioChunks c) > 0 then [PlayAudio (currentAudioChunks c)]
             else []))
      else if type data = ''response.audio_transcript.delta'' then
        (c\<lparr>currentTranscript := currentTranscript c @ delta data\<rparr>,
         [Log (TranscriptSoFar (currentTranscript c @ delta data)) LogTranscript])
      else if type data = ''response.audio_transcript.done'' then
        (c, [Log (TranscriptDone (transcript data)) LogTranscript])
      else if type data = ''response.content_part.done'' then (c, [Log ContentPartDone LogSystem])
      else if type data = ''response.output_item.done'' then (c, [Log OutputItemDone LogSystem])
      else if type data = ''response.done'' then
        (c, [Log ResponseComplete LogSystem, Log Rule LogSystem])
      else if type data = ''input_audio_buffer.speech_started'' then
        (c, [Log SpeechBegins LogSystem])
      else if type data = ''input_audio_buffer.speech_stopped'' then
        (c, [Log SpeechEnds LogSystem])
      else if type data = ''input_audio_buffer.committed'' then
        (c, [Log BufferCommitted LogSystem])
      else if type data = ''rate_limits.updated'' then (c, [ConsoleLog RateLimits])
      else (c, [Log (Unhandled data) LogResponse]))"

definition handleResponse ::
  "'a RealtimeClient_scheme \<Rightarrow> server_event \<Rightarrow> 'a RealtimeClient_scheme \<times> effect list" where
  "handleResponse c data =
     (case clearResponseTimeout c of
        (c1, cleared) \<Rightarrow>
          if type data = ''error'' then
            (c1, ConsoleLog (ResponseTrace data) # cleared @
                 [Log (ErrorLine (if error data \<noteq> [] then error data else ''[object Object]''))
                    LogError])
          else
            (case dispatch c1 data of
               (c2, effects) \<Rightarrow> (c2, ConsoleLog (ResponseTrace data) # cleared @ effects)))"

subsection \<open>src/interactive.js: the bytes \<^verbatim>\<open>playAudio\<close> plays\<close>

type_synonym byte = "8 word"

text \<open>
  \<^verbatim>\<open>atob\<close> is a parameter: \<open>atob s = None\<close> when \<^verbatim>\<open>atob(s)\<close> throws, else the binary
  string, one character a byte. The loop \<^verbatim>\<open>bytes[i] = binary.charCodeAt(i)\<close> turns it into
  a \<^verbatim>\<open>Uint8Array\<close>.
\<close>

definition decode_chunk :: "(string \<Rightarrow> string option) \<Rightarrow> string \<Rightarrow> byte list option" where
  "decode_chunk atob base64 =
     (case atob base64 of None \<Rightarrow> None | Some binary \<Rightarrow> Some (map of_char binary))"

text \<open>\<^verbatim>\<open>base64Chunks.map(...)\<close>: the first chunk that fails to decode ends the call.\<close>

fun decode_chunks :: "(string \<Rightarrow> string option) \<Rightarrow> string list \<Rightarrow> byte list list option" where
  "decode_chunks atob [] = Some []"
| "decode_chunks atob (base64 # rest) =
     (case decode_chunk atob base64 of
        None \<Rightarrow> None
      | Some bytes \<Rightarrow>
          (case decode_chunks atob rest of
             None \<Rightarrow> None
           | Some buffers \<Rightarrow> Some (bytes # buffers)))"

text \<open>
  \<^verbatim>\<open>combined.set(buffer, offset)\<close> on a \<^verbatim>\<open>Uint8Array\<close>: a \<^verbatim>\<open>RangeError\<close> when the source
  does not fit behind the offset, else the source replaces the elements from the offset on.
\<close>

definition typed_array_set :: "byte list \<Rightarrow> byte list \<Rightarrow> nat \<Rightarrow> byte list option" where
  "typed_array_set combined buffer offset =
     (if offset + length buffer > length combined then None
      else Some (take offset combined @ buffer @ drop (offset + length buffer) combined))"

text \<open>
  \<^verbatim>\<open>buffers.forEach(buffer => { combined.set(buffer, offset); offset += buffer.length; })\<close>
\<close>

fun set_buffers :: "byte list \<Rightarrow> nat \<Rightarrow> byte list list \<Rightarrow> byte list option" where
  "set_buffers combined offset [] = Some combined"
| "set_buffers combined offset (buffer # rest) =
     (case typed_array_set combined buffer offset of
        None \<Rightarrow> None
      | Some combined' \<Rightarrow> set_buffers combined' (offset + length buffer) rest)"

text \<open>
  Lines 682 to 700 of \<^verbatim>\<open>playAudio\<close>: decode every chunk, allocate
  \<^verbatim>\<open>new Uint8Array(totalLength)\<close> (all zero), copy the buffers in. The result is the array
  \<^verbatim>\<open>combined\<close>, or the exception that the \<^verbatim>\<open>catch\<close> of \<^verbatim>\<open>playAudio\<close> receives.
\<close>

definition playAudio_combined ::
  "(string \<Rightarrow> string option) \<Rightarrow> string list \<Rightarrow> js_error + byte list" where
  "playAudio_combined atob base64Chunks =
     (case decode_chunks atob base64Chunks of
        None \<Rightarrow> Inl InvalidCharacterError
      | Some buffers \<Rightarrow>
          let totalLength = sum_list (map length buffers) in
          (case set_buffers (replicate totalLength 0) 0 buffers of
             None \<Rightarrow> Inl RangeError
           | Some combined \<Rightarrow> Inr combined))"

subsection \<open>Concrete events\<close>

text \<open>
  The event \<^verbatim>\<open>{type: t, delta: d}\<close>; the fields it does not carry are empty. It serves
  to run the handlers on concrete inputs.
\<close>

definition bare_event :: "string \<Rightarrow> string \<Rightarrow> server_event" where
  "bare_event t d =
     \<lparr>type = t, delta = d, text' = [], transcript = [], name = [], arguments = [],
      call_id = [], error = []\<rparr>"

section \<open>Properties\<close>

lemma sent_append: "sent (xs @ ys) = sent xs @ sent ys"
  by (induction xs rule: sent.induct) simp_all

subsection \<open>Delivering a list of events\<close>

lemma fst_deliver_Cons:
  "fst (deliver h c (e # es)) = fst (deliver h (fst (h c e)) es)"
  by (simp split: prod.splits)

lemma snd_deliver_Cons:
  "snd (deliver h c (e # es)) = snd (h c e) @ snd (deliver h (fst (h c e)) es)"
  by (simp split: prod.splits)

lemma fst_deliver_append:
  "fst (deliver h c (xs @ ys)) = fst (deliver h (fst (deliver h c xs)) ys)"
  by (induction xs arbitrary: c) (simp_all add: fst_deliver_Cons del: deliver.simps(2))

lemma snd_deliver_append:
  "snd (deliver h c (xs @ ys)) = snd (deliver h c xs) @ snd (deliver h (fst (deliver h c xs)) ys)"
  by (induction xs arbitrary: c) (simp_all add: fst_deliver_Cons snd_deliver_Cons del: deliver.simps(2))

lemma deliver_append:
  "deliver h c (xs @ ys) =
     (fst (deliver h (fst (deliver h c xs)) ys),
      snd (deliver h c xs) @ snd (deliver h (fst (deliver h c xs)) ys))"
  by (simp add: prod_eq_iff fst_deliver_append snd_deliver_append)

lemma handleResponse_created:
  "type data = ''response.created'' \<Longrightarrow>
   handleResponse c data =
     (c\<lparr>currentTextResponse := [], currentAudioChunks := [], currentTranscript := [],
        responseTimeout := None\<rparr>,
      ConsoleLog (ResponseTrace data) #
        (case responseTimeout c of None \<Rightarrow> [] | Some t \<Rightarrow> [ClearTimeout t]) @
        [Log ResponseBegins LogSystem])"
  by (cases "responseTimeout c") (simp_all add: handleResponse_def clearResponseTimeout_def dispatch_def)

lemma handleResponse_text_delta:
  "type data = ''response.text.delta'' \<Longrightarrow>
   handleResponse c data =
     (c\<lparr>currentTextResponse := currentTextResponse c @ delta data, responseTimeout := None\<rparr>,
      ConsoleLog (ResponseTrace data) #
        (case responseTimeout c of None \<Rightarrow> [] | Some t \<Rightarrow> [ClearTimeout t]) @
        [UpdateTextDisplay (currentTextResponse c @ delta data)])"
  by (cases "responseTimeout c") (simp_all add: handleResponse_def clearResponseTimeout_def dispatch_def)

lemma handleResponse_text_done:
  "type data = ''response.text.done'' \<Longrightarrow>
   handleResponse c data =
     (c\<lparr>responseTimeout := None\<rparr>,
      ConsoleLog (ResponseTrace data) #
        (case responseTimeout c of None \<Rightarrow> [] | Some t \<Rightarrow> [ClearTimeout t]) @
        [Log TextGenerationDone LogSystem, Log (FullText (text' data)) LogText])"
  by (cases "responseTimeout c") (simp_all add: handleResponse_def clearResponseTimeout_def dispatch_def)

lemma handleResponse_audio_delta:
  "type data = ''response.audio.delta'' \<Longrightarrow>
   handleResponse c data =
     (c\<lparr>currentAudioChunks := currentAudioChunks c @ [delta data], responseTimeout := None\<rparr>,
      ConsoleLog (ResponseTrace data) #
        (case responseTimeout c of None \<Rightarrow> [] | Some t \<Rightarrow> [ClearTimeout t]) @
        [Log (AudioChunkNumber (length (currentAudioChunks c) + 1)) LogSystem])"
  by (cases "responseTimeout c") (simp_all add: handleResponse_def clearResponseTimeout_def dispatch_def)

lemma handleResponse_audio_done:
  "type data = ''response.audio.done'' \<Longrightarrow>
   handleResponse c data =
     (c\<lparr>responseTimeout := None\<rparr>,
      ConsoleLog (ResponseTrace data) #
        (case responseTimeout c of None \<Rightarrow> [] | Some t \<Rightarrow> [ClearTimeout t]) @
        Log (AudioGenerationDone (length (currentAudioChunks c))) LogSystem #
        (if currentAudioChunks c = [] then [] else [PlayAudio (currentAudioChunks c)]))"
  by (cases "responseTimeout c") (simp_all add: handleResponse_def clearResponseTimeout_def dispatch_def)

lemma upt_0_Suc: "[0..<Suc n] = 0 # map Suc [0..<n]"
  by (simp add: upt_conv_Cons map_Suc_upt del: upt_Suc)

lemma text_deltas_shown:
  "\<forall>e\<in>set deltas. type e = ''response.text.delta'' \<Longrightarrow> responseTimeout c = None \<Longrightarrow>
   deliver handleResponse c deltas =
     (c\<lparr>currentTextResponse := currentTextResponse c @ concat (map delta deltas),
        responseTimeout := None\<rparr>,
      concat (map (\<lambda>k. [ConsoleLog (ResponseTrace (deltas ! k)),
                        UpdateTextDisplay
                          (currentTextResponse c @ concat (map delta (take (Suc k) deltas)))])
               [0..<length deltas]))"
proof (induction deltas arbitrary: c)
  case Nil
  then show ?case by simp
next
  case (Cons d ds)
  let ?c1 = "c\<lparr>currentTextResponse := currentTextResponse c @ delta d, responseTimeout := None\<rparr>"
  have step: "handleResponse c d =
      (?c1, [ConsoleLog (ResponseTrace d), UpdateTextDisplay (currentTextResponse c @ delta d)])"
    using Cons.prems by (simp add: handleResponse_text_delta)
  have "\<forall>e\<in>set ds. type e = ''response.text.delta''" using Cons.prems(1) by simp
  moreover have "responseTimeout ?c1 = None" by simp
  ultimately have ih: "deliver handleResponse ?c1 ds =
     (?c1\<lparr>currentTextResponse := currentTextResponse ?c1 @ concat (map delta ds),
        responseTimeout := None\<rparr>,
      concat (map (\<lambda>k. [ConsoleLog (ResponseTrace (ds ! k)),
                        UpdateTextDisplay
                          (currentTextResponse ?c1 @ concat (map delta (take (Suc k) ds)))])
               [0..<length ds]))"
    by (rule Cons.IH)
  show ?case
    by (simp add: step ih upt_0_Suc comp_def del: upt_Suc)
qed

lemma audio_deltas_accumulate:
  "\<forall>e\<in>set deltas. type e = ''response.audio.delta'' \<Longrightarrow>
   currentAudioChunks (fst (deliver handleResponse c deltas)) =
     currentAudioChunks c @ map delta deltas"
  by (induction deltas arbitrary: c)
     (simp_all add: fst_deliver_Cons handleResponse_audio_delta del: deliver.simps(2))

lemma Interactive_text_delta:
  "type event = ''response.text.delta'' \<Longrightarrow>
   Interactive_handleServerEvent c event =
     (c\<lparr>currentResponse := currentResponse c @ delta event\<rparr>, [StdoutWrite (delta event)])"
  by (simp add: Interactive_handleServerEvent_def)

lemma Interactive_text_done:
  "type event = ''response.text.done'' \<Longrightarrow>
   Interactive_handleServerEvent c event = (c\<lparr>currentResponse := []\<rparr>, [ConsoleLog NewLine])"
  by (simp add: Interactive_handleServerEvent_def)

lemma Interactive_deltas:
  "\<forall>e\<in>set deltas. type e = ''response.text.delta'' \<Longrightarrow>
   deliver Interactive_handleServerEvent c deltas =
     (c\<lparr>currentResponse := currentResponse c @ concat (map delta deltas)\<rparr>,
      map (\<lambda>e. StdoutWrite (delta e)) deltas)"
  by (induction deltas arbitrary: c) (simp_all add: Interactive_text_delta)

lemma typed_array_set_fits:
  "offset + length buffer \<le> length combined \<Longrightarrow>
   typed_array_set combined buffer offset =
     Some (take offset combined @ buffer @ drop (offset + length buffer) combined)"
  by (simp add: typed_array_set_def)

lemma set_buffers_concat:
  "offset + sum_list (map length buffers) \<le> length combined \<Longrightarrow>
   set_buffers combined offset buffers =
     Some (take offset combined @ concat buffers @
           drop (offset + sum_list (map length buffers)) combined)"
proof (induction buffers arbitrary: combined offset)
  case Nil
  then show ?case by simp
next
  case (Cons b bs)
  let ?c' = "take offset combined @ b @ drop (offset + length b) combined"
  from Cons.prems have fits: "offset + length b \<le> length combined" by simp
  have len: "length ?c' = length combined" using fits by simp
  have step: "typed_array_set combined b offset = Some ?c'"
    using fits by (rule typed_array_set_fits)
  have "(offset + length b) + sum_list (map length bs) \<le> length ?c'"
    using Cons.prems len by simp
  then have ih: "set_buffers ?c' (offset + length b) bs =
      Some (take (offset + length b) ?c' @ concat bs @
            drop (offset + length b + sum_list (map length bs)) ?c')"
    by (rule Cons.IH)
  have t: "take (offset + length b) ?c' = take offset combined @ b"
    using fits by simp
  have d: "drop (offset + length b + sum_list (map length bs)) ?c' =
           drop (offset + length b + sum_list (map length bs)) combined"
    using fits by (simp add: ac_simps)
  show ?case using step ih t d by (simp add: ac_simps)
qed

lemma decode_chunks_map:
  "map (decode_chunk atob) base64Chunks = map Some buffers \<Longrightarrow>
   decode_chunks atob base64Chunks = Some buffers"
  by (induction base64Chunks arbitrary: buffers) auto

lemma playAudio_combined_concat:
  "map (decode_chunk atob) base64Chunks = map Some buffers \<Longrightarrow>
   playAudio_combined atob base64Chunks = Inr (concat buffers)"
  by (simp add: playAudio_combined_def decode_chunks_map set_buffers_concat)


subsection \<open>The weather table\<close>

lemma getWeather_table:
  "getWeather beijing = WeatherObject \<lparr>temperature = 15, condition = sunny, humidity = 45\<rparr>"
  "getWeather shanghai = WeatherObject \<lparr>temperature = 20, condition = cloudy, humidity = 60\<rparr>"
  "getWeather shenzhen = WeatherObject \<lparr>temperature = 25, condition = light_rain, humidity = 75\<rparr>"
  by (simp_all add: getWeather_def weatherData_def beijing_def shanghai_def shenzhen_def)

lemma getWeather_default:
  "location \<notin> {beijing, shanghai, shenzhen} \<Longrightarrow> location \<notin> set object_prototype_keys \<Longrightarrow>
   getWeather location = WeatherObject default_weather"
  by (simp add: getWeather_def weatherData_def)

subsection \<open>What a tool call sends\<close>

lemma sent_returnFunctionResult:
  "isConnected c \<Longrightarrow>
   sent (returnFunctionResult p c callId result) =
     [ConversationItemCreate (FunctionCallOutput callId (JSON_stringify p result)),
      ResponseCreate None]"
  by (simp add: returnFunctionResult_def ToolCall_send_def)

lemma handleFunctionCall_completes:
  "snd (handleFunctionCall p d c event) = None \<Longrightarrow>
   \<exists>args result. JSON_parse p (arguments event) = Some args \<and>
     fst (handleFunctionCall p d c event) =
       ConsoleLog (Executing (name event) args) #
       returnFunctionResult p c (call_id event) result"
  by (auto simp: handleFunctionCall_def Let_def split: option.splits if_splits sum.splits)

lemma handleFunctionCall_throws:
  "snd (handleFunctionCall p d c event) \<noteq> None \<Longrightarrow>
   sent (fst (handleFunctionCall p d c event)) = []"
  by (auto simp: handleFunctionCall_def Let_def split: option.splits if_splits sum.splits)

section \<open>The claims\<close>

text \<open>
  C1, as amended. For every sequence of \<^verbatim>\<open>response.text.delta\<close> events followed by a
  \<^verbatim>\<open>response.text.done\<close> event, the concatenation of the delta fragments in arrival order
  is produced by the delta events, not by the done event.

  \<^verbatim>\<open>RealtimeClient\<close>, after \<^verbatim>\<open>response.created\<close> and from any state: each delta appends
  its fragment to \<^verbatim>\<open>currentTextResponse\<close> and shows the text accumulated so far on the
  page, so the last delta shows the concatenation of all the deltas and the field holds
  it; the done event leaves the field as it is and logs the event's own \<^verbatim>\<open>text\<close>,
  whatever the deltas were. \<^verbatim>\<open>InteractiveRealtimeClient\<close>, from any state: each delta is
  written to the standard output, in arrival order, and appended to \<^verbatim>\<open>currentResponse\<close>;
  the done event prints a new line and empties the field. The theorem gives the whole
  result of the handlers on such a sequence: the final state and every effect, in order.
\<close>

theorem text_deltas_then_done:
  assumes "\<forall>e\<in>set deltas. type e = ''response.text.delta''"
    and "type created = ''response.created''"
    and "type text_done = ''response.text.done''"
  shows "deliver handleResponse c (created # deltas @ [text_done]) =
          (c\<lparr>currentTextResponse := concat (map delta deltas), currentAudioChunks := [],
             currentTranscript := [], responseTimeout := None\<rparr>,
           ConsoleLog (ResponseTrace created) #
             (case responseTimeout c of None \<Rightarrow> [] | Some t \<Rightarrow> [ClearTimeout t]) @
             [Log ResponseBegins LogSystem] @
             concat (map (\<lambda>k. [ConsoleLog (ResponseTrace (deltas ! k)),
                               UpdateTextDisplay (concat (map delta (take (Suc k) deltas)))])
                      [0..<length deltas]) @
             [ConsoleLog (ResponseTrace text_done), Log TextGenerationDone LogSystem,
              Log (FullText (text' text_done)) LogText])
       \<and> deliver Interactive_handleServerEvent c' (deltas @ [text_done]) =
          (c'\<lparr>currentResponse := []\<rparr>,
           map (\<lambda>e. StdoutWrite (delta e)) deltas @ [ConsoleLog NewLine])
       \<and> deliver Interactive_handleServerEvent c' deltas =
          (c'\<lparr>currentResponse := currentResponse c' @ concat (map delta deltas)\<rparr>,
           map (\<lambda>e. StdoutWrite (delta e)) deltas)"
proof (intro conjI)
  let ?c1 = "c\<lparr>currentTextResponse := [], currentAudioChunks := [], currentTranscript := [],
               responseTimeout := None\<rparr>"
  have first: "handleResponse c created =
      (?c1, ConsoleLog (ResponseTrace created) #
            (case responseTimeout c of None \<Rightarrow> [] | Some t \<Rightarrow> [ClearTimeout t]) @
            [Log ResponseBegins LogSystem])"
    using assms(2) by (rule handleResponse_created)
  have "responseTimeout ?c1 = None" by simp
  with assms(1) have middle: "deliver handleResponse ?c1 deltas =
     (?c1\<lparr>currentTextResponse := currentTextResponse ?c1 @ concat (map delta deltas),
        responseTimeout := None\<rparr>,
      concat (map (\<lambda>k. [ConsoleLog (ResponseTrace (deltas ! k)),
                        UpdateTextDisplay
                          (currentTextResponse ?c1 @ concat (map delta (take (Suc k) deltas)))])
               [0..<length deltas]))"
    by (rule text_deltas_shown)
  have last: "deliver handleResponse ?c1 (deltas @ [text_done]) =
     (?c1\<lparr>currentTextResponse := concat (map delta deltas)\<rparr>,
      concat (map (\<lambda>k. [ConsoleLog (ResponseTrace (deltas ! k)),
                        UpdateTextDisplay (concat (map delta (take (Suc k) deltas)))])
               [0..<length deltas]) @
      [ConsoleLog (ResponseTrace text_done), Log TextGenerationDone LogSystem,
       Log (FullText (text' text_done)) LogText])"
    using assms(3) by (simp add: deliver_append middle handleResponse_text_done)
  show "deliver handleResponse c (created # deltas @ [text_done]) =
          (c\<lparr>currentTextResponse := concat (map delta deltas), currentAudioChunks := [],
             currentTranscript := [], responseTimeout := None\<rparr>,
           ConsoleLog (ResponseTrace created) #
             (case responseTimeout c of None \<Rightarrow> [] | Some t \<Rightarrow> [ClearTimeout t]) @
             [Log ResponseBegins LogSystem] @
             concat (map (\<lambda>k. [ConsoleLog (ResponseTrace (deltas ! k)),
                               UpdateTextDisplay (concat (map delta (take (Suc k) deltas)))])
                      [0..<length deltas]) @
             [ConsoleLog (ResponseTrace text_done), Log TextGenerationDone LogSystem,
              Log (FullText (text' text_done)) LogText])"
    by (simp add: first last)
next
  show "deliver Interactive_handleServerEvent c' (deltas @ [text_done]) =
          (c'\<lparr>currentResponse := []\<rparr>,
           map (\<lambda>e. StdoutWrite (delta e)) deltas @ [ConsoleLog NewLine])"
    using assms(1,3) by (simp add: deliver_append Interactive_deltas Interactive_text_done)
next
  show "deliver Interactive_handleServerEvent c' deltas =
          (c'\<lparr>currentResponse := currentResponse c' @ concat (map delta deltas)\<rparr>,
           map (\<lambda>e. StdoutWrite (delta e)) deltas)"
    using assms(1) by (rule Interactive_deltas)
qed

theorem text_deltas_then_done_witness:
  "deliver handleResponse
      \<lparr>isConnected = True, sessId = Some ''sess_1'', currentTextResponse = ''stale'',
       currentAudioChunks = [], currentTranscript = [], responseTimeout = Some 7\<rparr>
      [bare_event ''response.created'' [], bare_event ''response.text.delta'' ''Hel'',
       bare_event ''response.text.delta'' ''lo'',
       (bare_event ''response.text.done'' [])\<lparr>text' := ''Hello''\<rparr>]
   = (\<lparr>isConnected = True, sessId = Some ''sess_1'', currentTextResponse = ''Hello'',
       currentAudioChunks = [], currentTranscript = [], responseTimeout = None\<rparr>,
      [ConsoleLog (ResponseTrace (bare_event ''response.created'' [])), ClearTimeout 7,
       Log ResponseBegins LogSystem,
       ConsoleLog (ResponseTrace (bare_event ''response.text.delta'' ''Hel'')),
       UpdateTextDisplay ''Hel'',
       ConsoleLog (ResponseTrace (bare_event ''response.text.delta'' ''lo'')),
       UpdateTextDisplay ''Hello'',
       ConsoleLog (ResponseTrace ((bare_event ''response.text.done'' [])\<lparr>text' := ''Hello''\<rparr>)),
       Log TextGenerationDone LogSystem, Log (FullText ''Hello'') LogText])
   \<and> deliver Interactive_handleServerEvent
      \<lparr>isConnected = True, currentResponse = []\<rparr>
      [bare_event ''response.text.delta'' ''Hel'', bare_event ''response.text.delta'' ''lo'',
       bare_event ''response.text.done'' []]
   = (\<lparr>isConnected = True, currentResponse = []\<rparr>,
      [StdoutWrite ''Hel'', StdoutWrite ''lo'', ConsoleLog NewLine])
   \<and> deliver Interactive_handleServerEvent
      \<lparr>isConnected = True, currentResponse = []\<rparr>
      [bare_event ''response.text.delta'' ''Hel'', bare_event ''response.text.delta'' ''lo'']
   = (\<lparr>isConnected = True, currentResponse = ''Hello''\<rparr>,
      [StdoutWrite ''Hel'', StdoutWrite ''lo''])"
  using text_deltas_then_done
    [of "[bare_event ''response.text.delta'' ''Hel'', bare_event ''response.text.delta'' ''lo'']"
        "bare_event ''response.created'' []"
        "(bare_event ''response.text.done'' [])\<lparr>text' := ''Hello''\<rparr>"
        "\<lparr>isConnected = True, sessId = Some ''sess_1'', currentTextResponse = ''stale'',
          currentAudioChunks = [], currentTranscript = [], responseTimeout = Some 7\<rparr>"
        "\<lparr>isConnected = True, currentResponse = []\<rparr>"]
  by (simp add: bare_event_def handleResponse_def clearResponseTimeout_def dispatch_def
      Interactive_handleServerEvent_def)

text \<open>
  The claim as stated (the done event produces the concatenation of the deltas) fails:
  after the deltas \<^verbatim>\<open>Hel\<close> and \<^verbatim>\<open>lo\<close>, a done event whose \<^verbatim>\<open>text\<close> is \<^verbatim>\<open>Goodbye\<close> makes
  \<^verbatim>\<open>RealtimeClient\<close> log \<^verbatim>\<open>Goodbye\<close>, and the done event of \<^verbatim>\<open>InteractiveRealtimeClient\<close>
  prints a new line only and empties the accumulated text.
\<close>

theorem text_done_counterexample:
  "snd (handleResponse
     (fst (deliver handleResponse
        \<lparr>isConnected = True, sessId = Some ''sess_1'', currentTextResponse = [],
         currentAudioChunks = [], currentTranscript = [], responseTimeout = None\<rparr>
        [bare_event ''response.created'' [], bare_event ''response.text.delta'' ''Hel'',
         bare_event ''response.text.delta'' ''lo'']))
     ((bare_event ''response.text.done'' [])\<lparr>text' := ''Goodbye''\<rparr>))
   = [ConsoleLog (ResponseTrace ((bare_event ''response.text.done'' [])\<lparr>text' := ''Goodbye''\<rparr>)),
      Log TextGenerationDone LogSystem, Log (FullText ''Goodbye'') LogText]
   \<and> Interactive_handleServerEvent
     (fst (deliver Interactive_handleServerEvent
        \<lparr>isConnected = True, currentResponse = []\<rparr>
        [bare_event ''response.text.delta'' ''Hel'', bare_event ''response.text.delta'' ''lo'']))
     (bare_event ''response.text.done'' [])
   = (\<lparr>isConnected = True, currentResponse = []\<rparr>, [ConsoleLog NewLine])"
  by (simp add: bare_event_def handleResponse_def clearResponseTimeout_def dispatch_def
      Interactive_handleServerEvent_def)

text \<open>
  C2. For every sequence of \<^verbatim>\<open>response.audio.delta\<close> events of a response, the list
  \<^verbatim>\<open>currentAudioChunks\<close> at the \<^verbatim>\<open>response.audio.done\<close> event holds the chunks in arrival
  order, the done event hands that list to \<^verbatim>\<open>playAudio\<close> (when it is not empty), and the
  array \<^verbatim>\<open>combined\<close> that \<^verbatim>\<open>playAudio\<close> builds from it is the original byte stream: when a
  byte stream is split into \<open>chunks\<close> and every delta is a base64 text that \<^verbatim>\<open>atob\<close>
  decodes to its chunk, \<^verbatim>\<open>combined\<close> is \<open>concat chunks\<close>, and no \<^verbatim>\<open>combined.set\<close> is out of
  range.
\<close>

theorem audio_chunks_round_trip:
  assumes "\<forall>e\<in>set deltas. type e = ''response.audio.delta''"
    and "type created = ''response.created''"
    and "type audio_done = ''response.audio.done''"
    and "map (\<lambda>e. decode_chunk atob (delta e)) deltas = map Some chunks"
  shows "currentAudioChunks (fst (deliver handleResponse c (created # deltas @ [audio_done])))
           = map delta deltas
       \<and> snd (handleResponse (fst (deliver handleResponse c (created # deltas))) audio_done)
           = [ConsoleLog (ResponseTrace audio_done),
              Log (AudioGenerationDone (length deltas)) LogSystem]
             @ (if deltas = [] then [] else [PlayAudio (map delta deltas)])
       \<and> playAudio_combined atob
             (currentAudioChunks (fst (deliver handleResponse c (created # deltas @ [audio_done]))))
           = Inr (concat chunks)"
proof -
  note deliver.simps(2) [simp del]
  let ?c1 = "fst (handleResponse c created)"
  let ?c2 = "fst (deliver handleResponse c (created # deltas))"
  have c2: "?c2 = fst (deliver handleResponse ?c1 deltas)"
    by (simp add: fst_deliver_Cons del: deliver.simps(2))
  have acc: "currentAudioChunks ?c2 = map delta deltas"
    unfolding c2 using assms(1,2) by (simp add: audio_deltas_accumulate handleResponse_created)
  have timer: "responseTimeout ?c2 = None"
  proof (cases deltas rule: rev_cases)
    case Nil
    then show ?thesis using assms(2) by (simp add: fst_deliver_Cons handleResponse_created)
  next
    case (snoc ds d)
    then have "type d = ''response.audio.delta''" using assms(1) by simp
    then show ?thesis
      unfolding c2 snoc
      by (simp add: fst_deliver_append fst_deliver_Cons handleResponse_audio_delta
          del: deliver.simps(2))
  qed
  have final: "fst (deliver handleResponse c (created # deltas @ [audio_done]))
        = ?c2\<lparr>responseTimeout := None\<rparr>"
    using assms(3) fst_deliver_append [of handleResponse c "created # deltas" "[audio_done]"]
    by (simp add: handleResponse_audio_done fst_deliver_Cons del: deliver.simps(2))
  have chunks: "currentAudioChunks (fst (deliver handleResponse c (created # deltas @ [audio_done])))
        = map delta deltas"
    by (simp add: final acc)
  have played: "snd (handleResponse ?c2 audio_done)
        = [ConsoleLog (ResponseTrace audio_done),
           Log (AudioGenerationDone (length deltas)) LogSystem]
          @ (if deltas = [] then [] else [PlayAudio (map delta deltas)])"
    using assms(3) by (simp add: handleResponse_audio_done acc timer)
  have "map (decode_chunk atob) (map delta deltas) = map Some chunks"
    using assms(4) by (simp add: comp_def)
  then have bytes: "playAudio_combined atob (map delta deltas) = Inr (concat chunks)"
    by (rule playAudio_combined_concat)
  show ?thesis using chunks played bytes by simp
qed

theorem audio_chunks_round_trip_witness:
  "playAudio_combined
     (\<lambda>s. if s = ''SGVs'' then Some ''Hel'' else if s = ''bG8='' then Some ''lo'' else None)
     (currentAudioChunks (fst (deliver handleResponse
        \<lparr>isConnected = True, sessId = Some ''sess_1'', currentTextResponse = [],
         currentAudioChunks = [''stale''], currentTranscript = [], responseTimeout = None\<rparr>
        [bare_event ''response.created'' [], bare_event ''response.audio.delta'' ''SGVs'',
         bare_event ''response.audio.delta'' ''bG8='', bare_event ''response.audio.done'' []])))
   = Inr [72, 101, 108, 108, 111]"
  using audio_chunks_round_trip
    [of "[bare_event ''response.audio.delta'' ''SGVs'', bare_event ''response.audio.delta'' ''bG8='']"
        "bare_event ''response.created'' []" "bare_event ''response.audio.done'' []"
        "\<lambda>s. if s = ''SGVs'' then Some ''Hel'' else if s = ''bG8='' then Some ''lo'' else None"
        "[[72, 101, 108], [108, 111]]"
        "\<lparr>isConnected = True, sessId = Some ''sess_1'', currentTextResponse = [],
         currentAudioChunks = [''stale''], currentTranscript = [], responseTimeout = None\<rparr>"]
  by (simp add: bare_event_def decode_chunk_def handleResponse_def clearResponseTimeout_def
      dispatch_def playAudio_combined_def typed_array_set_def)

text \<open>
  C3, as amended. For every outbound message and every state in which \<^verbatim>\<open>isConnected\<close> is
  false, \<^verbatim>\<open>send\<close> hands nothing to the transport: \<^verbatim>\<open>StepFunRealtimeClient.send\<close> prints the
  warning and returns, \<^verbatim>\<open>InteractiveRealtimeClient.send\<close> and \<^verbatim>\<open>ToolCallClient.send\<close> do
  nothing at all (no warning). Nothing is thrown and no state changes; the same call hands
  the message to the transport once \<^verbatim>\<open>isConnected\<close> is true.
\<close>

theorem send_while_not_connected:
  "(\<not> isConnected c \<longrightarrow> StepFun_send c e = [ConsoleError NotConnected])
   \<and> (\<not> isConnected c' \<longrightarrow> Interactive_send c' e = [])
   \<and> (\<not> isConnected c'' \<longrightarrow> ToolCall_send c'' e = [])
   \<and> (isConnected c \<longrightarrow> StepFun_send c e = [WsSend e])
   \<and> (isConnected c' \<longrightarrow> Interactive_send c' e = [WsSend e])
   \<and> (isConnected c'' \<longrightarrow> ToolCall_send c'' e = [WsSend e])"
  by (simp add: StepFun_send_def Interactive_send_def ToolCall_send_def)

theorem send_while_not_connected_witness:
  "sent (StepFun_send \<lparr>isConnected = False\<rparr> (ResponseCreate None)) = []
   \<and> StepFun_send \<lparr>isConnected = False\<rparr> (ResponseCreate None) = [ConsoleError NotConnected]
   \<and> Interactive_send \<lparr>isConnected = False, currentResponse = []\<rparr> (ResponseCreate None) = []
   \<and> ToolCall_send \<lparr>isConnected = False\<rparr> (ResponseCreate None) = []
   \<and> sent (StepFun_send \<lparr>isConnected = True\<rparr> (ResponseCreate None)) = [ResponseCreate None]"
  using send_while_not_connected
    [of "\<lparr>isConnected = False\<rparr>" "ResponseCreate None"
        "\<lparr>isConnected = False, currentResponse = []\<rparr>" "\<lparr>isConnected = False\<rparr>"]
    send_while_not_connected
    [of "\<lparr>isConnected = True\<rparr>" "ResponseCreate None"
        "\<lparr>isConnected = False, currentResponse = []\<rparr>" "\<lparr>isConnected = False\<rparr>"]
  by simp

text \<open>
  The claim as stated (a no-op \<^emph>\<open>with a warning\<close>) fails for
  \<^verbatim>\<open>InteractiveRealtimeClient.send\<close>: not connected, it has no effect whatever.
\<close>

theorem silent_send_counterexample:
  "Interactive_send \<lparr>isConnected = False, currentResponse = []\<rparr> (ResponseCreate None) = []"
  by (simp add: Interactive_send_def)

text \<open>
  C4. For every inbound event whose tag is none of the \<^verbatim>\<open>case\<close> labels of the handler, the
  handler takes its \<^verbatim>\<open>default\<close> branch, which forwards the event to the catch-all log
  (\<^verbatim>\<open>console.log\<close> of the whole event in src/index.js, \<^verbatim>\<open>this.log\<close> of the whole event
  with type \<^verbatim>\<open>'response'\<close> in \<^verbatim>\<open>RealtimeClient\<close>), and no session or accumulator field
  changes: the state of \<^verbatim>\<open>StepFunRealtimeClient\<close> is returned as it came, and that of
  \<^verbatim>\<open>RealtimeClient\<close> differs at most in the pending response timer, which every event
  clears. The handlers have no exceptional outcome: no operation on these paths throws.
\<close>

theorem unknown_tag_catch_all:
  "(type event \<notin> set StepFun_tags \<longrightarrow>
      StepFun_handleServerEvent c event =
        (c, [ConsoleLog (ServerEventTag (type event)), ConsoleLog (OtherEvent event)]))
   \<and> (type event \<notin> set RealtimeClient_tags \<longrightarrow>
      handleResponse c' event =
        (c'\<lparr>responseTimeout := None\<rparr>,
         ConsoleLog (ResponseTrace event) #
           (case responseTimeout c' of None \<Rightarrow> [] | Some t \<Rightarrow> [ClearTimeout t]) @
           [Log (Unhandled event) LogResponse]))"
  by (cases "responseTimeout c'")
     (simp_all add: StepFun_handleServerEvent_def StepFun_tags_def handleResponse_def
        clearResponseTimeout_def dispatch_def RealtimeClient_tags_def)

theorem unknown_tag_catch_all_witness:
  "StepFun_handleServerEvent \<lparr>isConnected = True\<rparr> (bare_event ''foo.bar'' []) =
     (\<lparr>isConnected = True\<rparr>,
      [ConsoleLog (ServerEventTag ''foo.bar''), ConsoleLog (OtherEvent (bare_event ''foo.bar'' []))])
   \<and> handleResponse
        \<lparr>isConnected = True, sessId = Some ''sess_1'', currentTextResponse = ''Hel'',
         currentAudioChunks = [''SGVs''], currentTranscript = ''He'', responseTimeout = None\<rparr>
        (bare_event ''foo.bar'' []) =
     (\<lparr>isConnected = True, sessId = Some ''sess_1'', currentTextResponse = ''Hel'',
       currentAudioChunks = [''SGVs''], currentTranscript = ''He'', responseTimeout = None\<rparr>,
      [ConsoleLog (ResponseTrace (bare_event ''foo.bar'' [])),
       Log (Unhandled (bare_event ''foo.bar'' [])) LogResponse])"
  using unknown_tag_catch_all
    [of "bare_event ''foo.bar'' []" "\<lparr>isConnected = True\<rparr>"
        "\<lparr>isConnected = True, sessId = Some ''sess_1'', currentTextResponse = ''Hel'',
         currentAudioChunks = [''SGVs''], currentTranscript = ''He'', responseTimeout = None\<rparr>"]
  by (simp add: bare_event_def StepFun_tags_def RealtimeClient_tags_def)

text \<open>
  C5, as amended. \<^verbatim>\<open>RealtimeClient\<close> holds one set of accumulators and no record of an open
  response. Every \<^verbatim>\<open>response.created\<close> event is accepted the same way, whatever events came
  before it (a \<^verbatim>\<open>response.done\<close> or none): it logs the line that a response begins, with
  type \<^verbatim>\<open>'system'\<close>, and empties the three accumulators, so what an unfinished response had
  accumulated is dropped. Nothing is signalled.
\<close>

theorem response_created_resets:
  assumes "type created = ''response.created''"
  shows "handleResponse c created =
       (c\<lparr>currentTextResponse := [], currentAudioChunks := [], currentTranscript := [],
          responseTimeout := None\<rparr>,
        ConsoleLog (ResponseTrace created) #
          (case responseTimeout c of None \<Rightarrow> [] | Some t \<Rightarrow> [ClearTimeout t]) @
          [Log ResponseBegins LogSystem])
     \<and> currentTextResponse (fst (deliver handleResponse c (events @ [created]))) = []
     \<and> currentAudioChunks (fst (deliver handleResponse c (events @ [created]))) = []
     \<and> currentTranscript (fst (deliver handleResponse c (events @ [created]))) = []
     \<and> snd (handleResponse (fst (deliver handleResponse c events)) created) =
         ConsoleLog (ResponseTrace created) #
           (case responseTimeout (fst (deliver handleResponse c events)) of
              None \<Rightarrow> [] | Some t \<Rightarrow> [ClearTimeout t]) @
           [Log ResponseBegins LogSystem]"
  using assms
  by (simp add: handleResponse_created fst_deliver_append fst_deliver_Cons
      del: deliver.simps(2))

theorem response_created_resets_witness:
  "fst (deliver handleResponse
      \<lparr>isConnected = True, sessId = Some ''sess_1'', currentTextResponse = [],
       currentAudioChunks = [], currentTranscript = [], responseTimeout = None\<rparr>
      [bare_event ''response.created'' [], bare_event ''response.text.delta'' ''Hel'',
       bare_event ''response.created'' []])
   = \<lparr>isConnected = True, sessId = Some ''sess_1'', currentTextResponse = [],
      currentAudioChunks = [], currentTranscript = [], responseTimeout = None\<rparr>"
  using response_created_resets
    [of "bare_event ''response.created'' []"
        "\<lparr>isConnected = True, sessId = Some ''sess_1'', currentTextResponse = [],
         currentAudioChunks = [], currentTranscript = [], responseTimeout = None\<rparr>"
        "[bare_event ''response.created'' [], bare_event ''response.text.delta'' ''Hel'']"]
  by (simp add: bare_event_def handleResponse_def clearResponseTimeout_def dispatch_def)

text \<open>
  The claim as stated (a second \<^verbatim>\<open>response.created\<close> before \<^verbatim>\<open>response.done\<close> is signalled
  as a protocol violation) fails: after \<^verbatim>\<open>response.created\<close> and a text delta, a second
  \<^verbatim>\<open>response.created\<close> produces exactly the effects of the first, none of them an error,
  and the accumulated text is gone.
\<close>

theorem second_response_created_counterexample:
  "handleResponse
     (fst (deliver handleResponse
        \<lparr>isConnected = True, sessId = Some ''sess_1'', currentTextResponse = [],
         currentAudioChunks = [], currentTranscript = [], responseTimeout = None\<rparr>
        [bare_event ''response.created'' [], bare_event ''response.text.delta'' ''Hel'']))
     (bare_event ''response.created'' [])
   = (\<lparr>isConnected = True, sessId = Some ''sess_1'', currentTextResponse = [],
       currentAudioChunks = [], currentTranscript = [], responseTimeout = None\<rparr>,
      [ConsoleLog (ResponseTrace (bare_event ''response.created'' [])),
       Log ResponseBegins LogSystem])
   \<and> snd (handleResponse
        \<lparr>isConnected = True, sessId = Some ''sess_1'', currentTextResponse = [],
         currentAudioChunks = [], currentTranscript = [], responseTimeout = None\<rparr>
        (bare_event ''response.created'' []))
     = [ConsoleLog (ResponseTrace (bare_event ''response.created'' [])),
        Log ResponseBegins LogSystem]"
  by (simp add: bare_event_def handleResponse_def clearResponseTimeout_def dispatch_def)

text \<open>
  C6. For every completed tool call on a connected client, the resolution
  \<^verbatim>\<open>returnFunctionResult\<close> hands to the transport exactly one
  \<^verbatim>\<open>conversation.item.create\<close> with a \<^verbatim>\<open>function_call_output\<close> item that carries the call
  id and the serialized result, followed by exactly one \<^verbatim>\<open>response.create\<close>. Every path of
  \<^verbatim>\<open>handleFunctionCall\<close> that completes (the three branches of its \<^verbatim>\<open>switch\<close>) sends
  exactly this pair for the event's call id, and a path that ends in an exception sends
  nothing: no path sends one of the two messages without the other, or twice.
\<close>

theorem tool_result_then_response_request:
  assumes "isConnected c"
  shows "sent (returnFunctionResult p c callId result) =
       [ConversationItemCreate (FunctionCallOutput callId (JSON_stringify p result)),
        ResponseCreate None]
     \<and> (snd (handleFunctionCall p d c event) = None \<longrightarrow>
         (\<exists>r. sent (fst (handleFunctionCall p d c event)) =
            [ConversationItemCreate (FunctionCallOutput (call_id event) (JSON_stringify p r)),
             ResponseCreate None]))
     \<and> (snd (handleFunctionCall p d c event) \<noteq> None \<longrightarrow>
         sent (fst (handleFunctionCall p d c event)) = [])"
proof (intro conjI impI)
  show "sent (returnFunctionResult p c callId result) =
       [ConversationItemCreate (FunctionCallOutput callId (JSON_stringify p result)),
        ResponseCreate None]"
    using assms by (rule sent_returnFunctionResult)
next
  assume "snd (handleFunctionCall p d c event) = None"
  then obtain args r where
    "fst (handleFunctionCall p d c event) =
       ConsoleLog (Executing (name event) args) # returnFunctionResult p c (call_id event) r"
    using handleFunctionCall_completes by blast
  then have "sent (fst (handleFunctionCall p d c event)) =
       [ConversationItemCreate (FunctionCallOutput (call_id event) (JSON_stringify p r)),
        ResponseCreate None]"
    using assms by (simp add: sent_returnFunctionResult)
  then show "\<exists>r. sent (fst (handleFunctionCall p d c event)) =
       [ConversationItemCreate (FunctionCallOutput (call_id event) (JSON_stringify p r)),
        ResponseCreate None]" ..
next
  assume "snd (handleFunctionCall p d c event) \<noteq> None"
  then show "sent (fst (handleFunctionCall p d c event)) = []"
    by (rule handleFunctionCall_throws)
qed

theorem tool_result_then_response_request_witness:
  "sent (fst (handleFunctionCall
      \<lparr>JSON_parse = (\<lambda>s. if s = ''{'' @ [CHR 0x22] @ ''location'' @ [CHR 0x22] @ '':''
                                  @ [CHR 0x22] @ beijing @ [CHR 0x22] @ ''}''
                          then Some (JObject [(''location'', JString beijing)]) else None),
       JSON_stringify = (\<lambda>r. if r = WeatherObject
                                     \<lparr>temperature = 15, condition = sunny, humidity = 45\<rparr>
                              then Some (''{'' @ [CHR 0x22] @ ''temperature'' @ [CHR 0x22]
                                @ '':15,'' @ [CHR 0x22] @ ''condition'' @ [CHR 0x22] @ '':''
                                @ [CHR 0x22] @ sunny @ [CHR 0x22] @ '','' @ [CHR 0x22]
                                @ ''humidity'' @ [CHR 0x22] @ '':45}'')
                              else None)\<rparr>
      \<lparr>fortune_draw = 0, number_draw = 0, color_draw = 0, today = ''2025/1/1''\<rparr>
      \<lparr>isConnected = True\<rparr>
      ((bare_event ''response.function_call_arguments.done'' [])
         \<lparr>name := ''get_weather'', call_id := ''call_1'',
          arguments := ''{'' @ [CHR 0x22] @ ''location'' @ [CHR 0x22] @ '':''
                        @ [CHR 0x22] @ beijing @ [CHR 0x22] @ ''}''\<rparr>)))
   = [ConversationItemCreate (FunctionCallOutput ''call_1''
        (Some (''{'' @ [CHR 0x22] @ ''temperature'' @ [CHR 0x22]
                                @ '':15,'' @ [CHR 0x22] @ ''condition'' @ [CHR 0x22] @ '':''
                                @ [CHR 0x22] @ sunny @ [CHR 0x22] @ '','' @ [CHR 0x22]
                                @ ''humidity'' @ [CHR 0x22] @ '':45}''))),
      ResponseCreate None]"
  using tool_result_then_response_request
    [of "\<lparr>isConnected = True\<rparr>"
      "\<lparr>JSON_parse = (\<lambda>s. if s = ''{'' @ [CHR 0x22] @ ''location'' @ [CHR 0x22] @ '':''
                                  @ [CHR 0x22] @ beijing @ [CHR 0x22] @ ''}''
                          then Some (JObject [(''location'', JString beijing)]) else None),
       JSON_stringify = (\<lambda>r. if r = WeatherObject
                                     \<lparr>temperature = 15, condition = sunny, humidity = 45\<rparr>
                              then Some (''{'' @ [CHR 0x22] @ ''temperature'' @ [CHR 0x22]
                                @ '':15,'' @ [CHR 0x22] @ ''condition'' @ [CHR 0x22] @ '':''
                                @ [CHR 0x22] @ sunny @ [CHR 0x22] @ '','' @ [CHR 0x22]
                                @ ''humidity'' @ [CHR 0x22] @ '':45}'')
                              else None)\<rparr>"
      "''call_1''" "WeatherObject \<lparr>temperature = 15, condition = sunny, humidity = 45\<rparr>"
      "\<lparr>fortune_draw = 0, number_draw = 0, color_draw = 0, today = ''2025/1/1''\<rparr>"
      "(bare_event ''response.function_call_arguments.done'' [])
         \<lparr>name := ''get_weather'', call_id := ''call_1'',
          arguments := ''{'' @ [CHR 0x22] @ ''location'' @ [CHR 0x22] @ '':''
                        @ [CHR 0x22] @ beijing @ [CHR 0x22] @ ''}''\<rparr>"]
  by (simp add: bare_event_def handleFunctionCall_def get_property_def property_key_def
      getWeather_def weatherData_def returnFunctionResult_def ToolCall_send_def beijing_def
      shanghai_def shenzhen_def)

text \<open>
  C7. When the argument text of a \<^verbatim>\<open>response.function_call_arguments.done\<close> event does not
  parse, \<^verbatim>\<open>JSON.parse\<close> throws inside \<^verbatim>\<open>handleFunctionCall\<close>, outside any \<^verbatim>\<open>try\<close>: the
  \<^verbatim>\<open>SyntaxError\<close> leaves \<^verbatim>\<open>handleFunctionCall\<close> and \<^verbatim>\<open>handleServerEvent\<close>, and nothing is
  sent: the call gets no result, error-shaped or other.
\<close>

theorem malformed_arguments_throw:
  assumes "JSON_parse p (arguments event) = None"
  shows "handleFunctionCall p d c event = ([], Some SyntaxError)
     \<and> (type event = ''response.function_call_arguments.done'' \<longrightarrow>
          ToolCall_handleServerEvent p d c event =
            ([ConsoleLog (EventTag (type event)), ConsoleLog (FunctionCallName (name event)),
              ConsoleLog (FunctionCallArguments (arguments event))], Some SyntaxError)
          \<and> sent (fst (ToolCall_handleServerEvent p d c event)) = [])"
  using assms by (simp add: handleFunctionCall_def ToolCall_handleServerEvent_def)

theorem malformed_arguments_throw_witness:
  "ToolCall_handleServerEvent
      \<lparr>JSON_parse = (\<lambda>s. if s = ''{}'' then Some (JObject []) else None),
       JSON_stringify = (\<lambda>r. None)\<rparr>
      \<lparr>fortune_draw = 0, number_draw = 0, color_draw = 0, today = ''2025/1/1''\<rparr>
      \<lparr>isConnected = True\<rparr>
      ((bare_event ''response.function_call_arguments.done'' [])
         \<lparr>name := ''get_weather'', call_id := ''call_1'',
          arguments := ''{'' @ [CHR 0x22] @ ''loc''\<rparr>)
   = ([ConsoleLog (EventTag ''response.function_call_arguments.done''),
       ConsoleLog (FunctionCallName ''get_weather''),
       ConsoleLog (FunctionCallArguments (''{'' @ [CHR 0x22] @ ''loc''))],
      Some SyntaxError)"
  using malformed_arguments_throw
    [of "\<lparr>JSON_parse = (\<lambda>s. if s = ''{}'' then Some (JObject []) else None),
          JSON_stringify = (\<lambda>r. None)\<rparr>"
        "(bare_event ''response.function_call_arguments.done'' [])
           \<lparr>name := ''get_weather'', call_id := ''call_1'',
            arguments := ''{'' @ [CHR 0x22] @ ''loc''\<rparr>"
        "\<lparr>fortune_draw = 0, number_draw = 0, color_draw = 0, today = ''2025/1/1''\<rparr>"
        "\<lparr>isConnected = True\<rparr>"]
  by (simp add: bare_event_def)

text \<open>
  C8. For every function call event whose arguments parse and whose function name is
  neither \<^verbatim>\<open>get_weather\<close> nor \<^verbatim>\<open>generate_horoscope\<close>, \<^verbatim>\<open>handleFunctionCall\<close> completes
  without an exception and resolves the call with the built-in object
  \<^verbatim>\<open>{ error: ... }\<close> (unknown function): on a connected client that object, serialized, is
  sent as the output of the call, followed by \<^verbatim>\<open>response.create\<close>.
\<close>

theorem unknown_function_error_result:
  assumes "JSON_parse p (arguments event) = Some args"
    and "name event \<noteq> ''get_weather''" and "name event \<noteq> ''generate_horoscope''"
  shows "handleFunctionCall p d c event =
       (ConsoleLog (Executing (name event) args) #
          returnFunctionResult p c (call_id event) (ErrorObject unknown_function), None)
     \<and> (isConnected c \<longrightarrow>
        sent (fst (handleFunctionCall p d c event)) =
          [ConversationItemCreate
             (FunctionCallOutput (call_id event)
                (JSON_stringify p (ErrorObject unknown_function))),
           ResponseCreate None])"
  using assms by (simp add: handleFunctionCall_def sent_returnFunctionResult)

theorem unknown_function_error_result_witness:
  "sent (fst (handleFunctionCall
      \<lparr>JSON_parse = (\<lambda>s. if s = ''{}'' then Some (JObject []) else None),
       JSON_stringify = (\<lambda>r. if r = ErrorObject unknown_function
          then Some (''{'' @ [CHR 0x22] @ ''error'' @ [CHR 0x22] @ '':'' @ [CHR 0x22]
                     @ unknown_function @ [CHR 0x22] @ ''}'')
          else None)\<rparr>
      \<lparr>fortune_draw = 0, number_draw = 0, color_draw = 0, today = ''2025/1/1''\<rparr>
      \<lparr>isConnected = True\<rparr>
      ((bare_event ''response.function_call_arguments.done'' [])
         \<lparr>name := ''get_time'', call_id := ''call_2'', arguments := ''{}''\<rparr>)))
   = [ConversationItemCreate (FunctionCallOutput ''call_2''
        (Some (''{'' @ [CHR 0x22] @ ''error'' @ [CHR 0x22] @ '':'' @ [CHR 0x22]
               @ unknown_function @ [CHR 0x22] @ ''}''))),
      ResponseCreate None]"
  using unknown_function_error_result
    [of "\<lparr>JSON_parse = (\<lambda>s. if s = ''{}'' then Some (JObject []) else None),
       JSON_stringify = (\<lambda>r. if r = ErrorObject unknown_function
          then Some (''{'' @ [CHR 0x22] @ ''error'' @ [CHR 0x22] @ '':'' @ [CHR 0x22]
                     @ unknown_function @ [CHR 0x22] @ ''}'')
          else None)\<rparr>"
        "(bare_event ''response.function_call_arguments.done'' [])
         \<lparr>name := ''get_time'', call_id := ''call_2'', arguments := ''{}''\<rparr>"
        "JObject []"
        "\<lparr>fortune_draw = 0, number_draw = 0, color_draw = 0, today = ''2025/1/1''\<rparr>"
        "\<lparr>isConnected = True\<rparr>"]
  by (simp add: bare_event_def handleFunctionCall_def returnFunctionResult_def ToolCall_send_def)

text \<open>
  C9, as amended. \<^verbatim>\<open>sendTextMessage\<close> (src/index.js) and \<^verbatim>\<open>sendMessage\<close>
  (src/interactive.js) validate nothing: for every text, the empty one included, a connected
  client sends \<^verbatim>\<open>conversation.item.create\<close> with the text as it is, then
  \<^verbatim>\<open>response.create\<close>. The only check for an empty text is in the caller of
  \<^verbatim>\<open>sendMessage\<close>, the command line loop, which does not call it for a line that trims to
  the empty string.
\<close>

theorem user_message_not_validated:
  "(isConnected c \<longrightarrow>
      sent (sendTextMessage c txt) =
        [ConversationItemCreate (Message ''user'' [InputText txt]),
         ResponseCreate (Some [''text''])])
   \<and> (isConnected c' \<longrightarrow>
      sent (sendMessage c' txt) =
        [ConversationItemCreate (Message ''user'' [InputText txt]),
         ResponseCreate (Some [''text''])])
   \<and> (trim line = [] \<longrightarrow> on_line trim c' line = [RlPrompt])"
  by (simp add: sendTextMessage_def sendMessage_def StepFun_send_def Interactive_send_def
      on_line_def)

theorem user_message_not_validated_witness:
  "sent (sendTextMessage \<lparr>isConnected = True\<rparr> ''hi'') =
     [ConversationItemCreate (Message ''user'' [InputText ''hi'']),
      ResponseCreate (Some [''text''])]
   \<and> sent (sendMessage \<lparr>isConnected = True, currentResponse = []\<rparr> ''hi'') =
     [ConversationItemCreate (Message ''user'' [InputText ''hi'']),
      ResponseCreate (Some [''text''])]
   \<and> on_line (\<lambda>s. filter (\<lambda>ch. ch \<noteq> CHR '' '') s)
        \<lparr>isConnected = True, currentResponse = []\<rparr> ''  '' = [RlPrompt]"
  using user_message_not_validated
    [of "\<lparr>isConnected = True\<rparr>" "''hi''" "\<lparr>isConnected = True, currentResponse = []\<rparr>"
        "\<lambda>s. filter (\<lambda>ch. ch \<noteq> CHR '' '') s" "''  ''"]
  by simp

text \<open>
  The claim as stated (an empty text is rejected before anything reaches the transport)
  fails: with the empty text both methods hand the two messages to the transport.
\<close>

theorem empty_user_message_counterexample:
  "sent (sendTextMessage \<lparr>isConnected = True\<rparr> []) =
     [ConversationItemCreate (Message ''user'' [InputText []]),
      ResponseCreate (Some [''text''])]
   \<and> sent (sendMessage \<lparr>isConnected = True, currentResponse = []\<rparr> []) =
     [ConversationItemCreate (Message ''user'' [InputText []]),
      ResponseCreate (Some [''text''])]"
  by (simp add: sendTextMessage_def sendMessage_def StepFun_send_def Interactive_send_def)

text \<open>
  C10. \<^verbatim>\<open>getWeather\<close> does not return the default object for every location outside its
  table: for the location \<^verbatim>\<open>'constructor'\<close> the read \<^verbatim>\<open>weatherData[location]\<close> finds the
  member that the table inherits from \<^verbatim>\<open>Object.prototype\<close> (a function, so truthy), and
  that member is returned in place of a weather object.
\<close>

theorem getWeather_inherited_key:
  "getWeather ''constructor'' = ObjectPrototypeMember ''constructor'' \<and>
   getWeather ''constructor'' \<noteq> WeatherObject default_weather"
  by (simp add: getWeather_def weatherData_def object_prototype_keys_def
      beijing_def shanghai_def shenzhen_def)

end
